theory Spec2Isabelle
  imports Main "HOL-Library.Sublist"
begin

section \<open>The SAML demo application (main.go)\<close>

text \<open>
  The program is one Go file: an HTML template and four HTTP handlers registered on a
  mux (\<open>GET /\<close>, \<open>GET /logout\<close>, \<open>GET /saml-redirect\<close>, \<open>GET /ssoready-callback\<close>).
  The handlers are embedded as HOL functions from the request (and from the two things a
  handler reaches outside the program: the SSOReady client and the connection it writes
  to) to a \<open>result\<close>: the calls the handler made, in order, on the broker and on
  its \<open>http.ResponseWriter\<close>, and whether it returned or panicked.

  The standard library and the SDK are not part of the program. Their calls are the
  boundary of the model: \<open>http.SetCookie\<close>, \<open>http.Redirect\<close> and \<open>Write\<close> are recorded
  with the arguments the handler gave them. Of what \<open>net/http\<close> then puts on the wire,
  the value of a cookie is modelled (\<open>sanitizeCookieValue\<close>), since the session is that
  value; the escaping of a Location header is not.
\<close>

subsection \<open>Errors and panics\<close>

text \<open>A Go \<open>error\<close> value, by its message. A handler panics either with an error it was
  handed (\<open>panic(err)\<close>) or by dereferencing a nil pointer.\<close>

datatype error = Error string

datatype panic = PanicError error | NilPointerDereference

subsection \<open>net/http: cookies, query values, requests\<close>

text \<open>\<open>http.Cookie\<close>, with the fields the program sets; every other field keeps its zero
  value. \<open>MaxAge = 0\<close> is the zero value (no Max-Age attribute); \<open>MaxAge < 0\<close> means
  "delete cookie now".\<close>

record cookie =
  Name :: string
  Value :: string
  MaxAge :: int

text \<open>\<open>url.Values\<close> is \<open>map[string][]string\<close>; \<open>Get\<close> returns the first value of the key,
  and the empty string when the key is absent or has no value.\<close>

type_synonym Values = "string \<rightharpoonup> string list"

definition Values_Get :: "Values \<Rightarrow> string \<Rightarrow> string" where
  "Values_Get v key =
     (case v key of
        None \<Rightarrow> []
      | Some vs \<Rightarrow> (case vs of [] \<Rightarrow> [] | x # _ \<Rightarrow> x))"

text \<open>A request as the handlers see it: \<open>Query\<close> is \<open>r.URL.Query()\<close>, \<open>Cookies\<close> is
  \<open>r.Cookies()\<close>. The other fields are request data no handler reads.\<close>

record request =
  Method :: string
  Path :: string
  Query :: Values
  Cookies :: "cookie list"
  Header :: "(string \<times> string) list"
  Body :: string

text \<open>\<open>r.Cookie(name)\<close>: the first cookie of that name, or nil (with \<open>ErrNoCookie\<close>, which
  the program discards).\<close>

definition request_Cookie :: "request \<Rightarrow> string \<Rightarrow> cookie option" where
  "request_Cookie r name =
     (if name = [] then None else find (\<lambda>c. Name c = name) (Cookies r))"

text \<open>
  \<open>http.SetCookie\<close> writes the cookie's value through \<open>sanitizeCookieValue\<close>: the bytes
  that are not valid in a cookie value are dropped, and what is left is put in double
  quotes when it contains a space or a comma (the cookie's \<open>Quoted\<close> field is false).
  \<open>parseCookieValue\<close> reads a value of a request's \<open>Cookie\<close> header: surrounding double
  quotes are stripped, and a value with an invalid byte is refused (\<open>None\<close>; the cookie
  is skipped).
\<close>

definition validCookieValueByte :: "char \<Rightarrow> bool" where
  "validCookieValueByte b =
     (0x20 \<le> (of_char b :: nat) \<and> (of_char b :: nat) < 0x7f
      \<and> b \<noteq> CHR 0x22 \<and> b \<noteq> CHR '';'' \<and> b \<noteq> CHR 0x5C)"

definition sanitizeCookieValue :: "string \<Rightarrow> string" where
  "sanitizeCookieValue v =
     (let v' = filter validCookieValueByte v
      in if v' = [] then v'
         else if CHR '' '' \<in> set v' \<or> CHR '','' \<in> set v' then [CHR 0x22] @ v' @ [CHR 0x22]
         else v')"

definition parseCookieValue :: "string \<Rightarrow> string option" where
  "parseCookieValue raw =
     (let raw' = (if 1 < length raw \<and> hd raw = CHR 0x22 \<and> last raw = CHR 0x22
                  then butlast (tl raw) else raw)
      in if list_all validCookieValueByte raw' then Some raw' else None)"

definition StatusFound :: nat where
  "StatusFound = 302"

subsection \<open>strings.Cut\<close>

text \<open>\<open>strings.Index(s, substr)\<close>: the index of the first instance of \<open>substr\<close> in \<open>s\<close>
  (Go's -1 is \<open>None\<close>). \<open>strings.Cut(s, sep)\<close> slices \<open>s\<close> around the first instance of
  \<open>sep\<close>; without one it returns \<open>(s, "", false)\<close>.\<close>

fun Index :: "string \<Rightarrow> string \<Rightarrow> nat option" where
  "Index [] substr = (if substr = [] then Some 0 else None)"
| "Index (c # s) substr =
     (if prefix substr (c # s) then Some 0 else map_option Suc (Index s substr))"

definition Cut :: "string \<Rightarrow> string \<Rightarrow> string \<times> string \<times> bool" where
  "Cut s sep =
     (case Index s sep of
        Some i \<Rightarrow> (take i s, drop (i + length sep) s, True)
      | None \<Rightarrow> (s, [], False))"

subsection \<open>The SSOReady client\<close>

text \<open>
  The SDK's request and response structs have pointer fields: \<open>None\<close> is nil. The
  program sets one field of each request and reads one field of each response.
  A call returns Go's pair \<open>(*Response, error)\<close>. The client is a parameter of the
  handlers: it stands for whatever the broker answers at the time of the request.
\<close>

record GetSAMLRedirectURLRequest =
  OrganizationExternalID :: "string option"

record GetSAMLRedirectURLResponse =
  RedirectURL :: "string option"

record RedeemSAMLAccessCodeRequest =
  SAMLAccessCode :: "string option"

record RedeemSAMLAccessCodeResponse =
  Email :: "string option"

record SAMLClient =
  GetSAMLRedirectURL ::
    "GetSAMLRedirectURLRequest \<Rightarrow> GetSAMLRedirectURLResponse option \<times> error option"
  RedeemSAMLAccessCode ::
    "RedeemSAMLAccessCodeRequest \<Rightarrow> RedeemSAMLAccessCodeResponse option \<times> error option"

subsection \<open>What a handler does\<close>

text \<open>The calls a handler makes, in the order it makes them: on the broker, and on the
  response writer (\<open>http.SetCookie(w, c)\<close>, \<open>http.Redirect(w, r, url, code)\<close>,
  \<open>w.Write(s)\<close>).\<close>

datatype event =
    CallGetSAMLRedirectURL GetSAMLRedirectURLRequest
  | CallRedeemSAMLAccessCode RedeemSAMLAccessCodeRequest
  | SetCookie cookie
  | Redirect string nat
  | Write string

datatype outcome = Returned | Panicked panic

record result =
  trace :: "event list"
  outcome :: outcome

fun is_broker_call :: "event \<Rightarrow> bool" where
  "is_broker_call (CallGetSAMLRedirectURL _) = True"
| "is_broker_call (CallRedeemSAMLAccessCode _) = True"
| "is_broker_call _ = False"

definition broker_calls :: "result \<Rightarrow> event list" where
  "broker_calls res = filter is_broker_call (trace res)"

definition response :: "result \<Rightarrow> event list" where
  "response res = filter (\<lambda>e. \<not> is_broker_call e) (trace res)"

subsection \<open>html/template and the index page\<close>

text \<open>
  The template is text, one action \<open>{{ or .Email "logged-out user" }}\<close>, and text.
  \<open>ln n s\<close> is a source line: \<open>n\<close> tabs, \<open>s\<close>, a newline.
\<close>

definition ln :: "nat \<Rightarrow> string \<Rightarrow> string" where
  "ln n s = replicate n (CHR 0x09) @ s @ [CHR 0x0A]"

datatype arg = Field string | StringConst string

datatype node = TextNode string | OrNode "arg list"

definition index_text_before :: string where
  \<open>index_text_before = concat
    [ln 0 '''',
     ln 0 ''<!doctype html>'',
     ln 0 ''<html>'',
     ln 1 ''<head>'',
     ln 2 ''<title>SAML Demo App using SSOReady</title>'',
     ln 2 ''<script src="https://cdn.tailwindcss.com"></script>'',
     ln 1 ''</head>'',
     ln 1 ''<body>'',
     ln 2 ''<main class="grid min-h-screen place-items-center py-32 px-8">'',
     ln 3 ''<div class="text-center">'',
     ln 4 ''<h1 class="mt-4 text-balance text-5xl font-semibold tracking-tight text-gray-900 sm:text-7xl">'',
     replicate 5 (CHR 0x09) @ ''Hello, '']\<close>

definition index_text_after :: string where
  \<open>index_text_after = concat
    [ln 0 ''!'',
     ln 4 ''</h1>'',
     ln 4 ''<p class="mt-6 text-pretty text-lg font-medium text-gray-500 sm:text-xl/8">'',
     ln 5 ''This is a SAML demo app, built using SSOReady.'',
     ln 4 ''</p>'',
     ln 0 '''',
     ln 4 ''<!-- submitting this form makes the user's browser do a GET /saml-redirect?email=... -->'',
     ln 4 ''<form method="get" action="/saml-redirect" class="mt-10 max-w-lg mx-auto">'',
     ln 5 ''<div class="flex gap-x-4 items-center">'',
     ln 6 ''<label for="email-address" class="sr-only">Email address</label>'',
     ln 6 ''<input id="email-address" name="email" class="min-w-0 flex-auto rounded-md border-0 px-3.5 py-2 text-gray-900 shadow-sm ring-1 ring-inset ring-gray-300 placeholder:text-gray-400 focus:ring-2 focus:ring-inset focus:ring-indigo-600 sm:text-sm sm:leading-6" value="john.doe@example.com" placeholder="john.doe@example.com">'',
     ln 6 ''<button type="submit" class="flex-none rounded-md bg-indigo-600 px-3.5 py-2.5 text-sm font-semibold text-white shadow-sm hover:bg-indigo-500 focus-visible:outline focus-visible:outline-2 focus-visible:outline-offset-2 focus-visible:outline-indigo-600">'',
     ln 7 ''Log in with SAML'',
     ln 6 ''</button>'',
     ln 6 ''<a href="/logout" class="px-3.5 py-2.5 text-sm font-semibold text-gray-900">'',
     ln 7 ''Sign out'',
     ln 6 ''</a>'',
     ln 5 ''</div>'',
     ln 5 ''<p class="mt-4 text-sm leading-6 text-gray-900">'',
     ln 6 ''(Try any @example.com or @example.org email address.)'',
     ln 5 ''</p>'',
     ln 4 ''</form>'',
     ln 3 ''</div>'',
     ln 2 ''</main>'',
     ln 1 ''</body>'',
     ln 0 ''</html>'']\<close>

definition indexTemplate :: "node list" where
  "indexTemplate =
     [TextNode index_text_before,
      OrNode [Field ''Email'', StringConst ''logged-out user''],
      TextNode index_text_after]"

text \<open>
  What \<open>html/template\<close> does with the template, as far as this template exercises it:
  \<^item> static text is emitted as written, except that an HTML comment \<open><!-- ... -->\<close> in
    it is dropped (\<open>escapeText\<close>; the second argument of \<open>elide\<close> counts the bytes of a
    comment delimiter still to skip);
  \<^item> a field of a \<open>map[string]string\<close> is its value, and the empty string when the key
    is missing;
  \<^item> \<open>or\<close> returns its first non-empty argument, or its last argument;
  \<^item> the value of an action in HTML text is escaped by the replacement table of
    \<open>htmlEscaper\<close> (NUL becomes U+FFFD, in UTF-8).
\<close>

fun elide :: "bool \<Rightarrow> nat \<Rightarrow> string \<Rightarrow> string" where
  "elide cmt k [] = []"
| "elide cmt (Suc k) (c # s) = elide cmt k s"
| "elide False 0 (c # s) =
     (if prefix ''<!--'' (c # s) then elide True 3 s else c # elide False 0 s)"
| "elide True 0 (c # s) =
     (if prefix ''-->'' (c # s) then elide False 2 s else elide True 0 s)"

definition escapeText :: "string \<Rightarrow> string" where
  "escapeText s = elide False 0 s"

definition htmlReplacementTable :: "char \<Rightarrow> string option" where
  "htmlReplacementTable c =
     (if c = CHR 0x00 then Some [CHR 0xEF, CHR 0xBF, CHR 0xBD]
      else if c = CHR 0x22 then Some ''&#34;''
      else if c = CHR ''&'' then Some ''&amp;''
      else if c = CHR 0x27 then Some ''&#39;''
      else if c = CHR ''+'' then Some ''&#43;''
      else if c = CHR ''<'' then Some ''&lt;''
      else if c = CHR ''>'' then Some ''&gt;''
      else None)"

definition htmlEscaper :: "string \<Rightarrow> string" where
  "htmlEscaper s =
     concat (map (\<lambda>c. case htmlReplacementTable c of None \<Rightarrow> [c] | Some repl \<Rightarrow> repl) s)"

definition truth :: "string \<Rightarrow> bool" where
  "truth s = (s \<noteq> [])"

fun or_builtin :: "string \<Rightarrow> string list \<Rightarrow> string" where
  "or_builtin arg0 [] = arg0"
| "or_builtin arg0 (a # args) = (if truth arg0 then arg0 else or_builtin a args)"

fun eval_arg :: "(string \<rightharpoonup> string) \<Rightarrow> arg \<Rightarrow> string" where
  "eval_arg data (Field name) = (case data name of None \<Rightarrow> [] | Some v \<Rightarrow> v)"
| "eval_arg data (StringConst s) = s"

fun emit :: "(string \<rightharpoonup> string) \<Rightarrow> node \<Rightarrow> string" where
  "emit data (TextNode s) = escapeText s"
| "emit data (OrNode args) =
     htmlEscaper (case map (eval_arg data) args of [] \<Rightarrow> [] | a # as \<Rightarrow> or_builtin a as)"

text \<open>
  \<open>Execute\<close> writes the nodes to \<open>w\<close> one \<open>Write\<close> each, and stops with the error of the
  first \<open>Write\<close> that fails. Whether a write to the connection fails is outside the
  program: a \<open>ResponseWriter\<close> gives, for the n-th \<open>Write\<close> of a handler, its error
  (\<open>None\<close> when it succeeds).
\<close>

type_synonym ResponseWriter = "nat \<Rightarrow> error option"

fun walk :: "ResponseWriter \<Rightarrow> (string \<rightharpoonup> string) \<Rightarrow> node list \<Rightarrow> nat \<Rightarrow> event list \<times> error option" where
  "walk w data [] n = ([], None)"
| "walk w data (nd # nds) n =
     (case w n of
        Some err \<Rightarrow> ([], Some err)
      | None \<Rightarrow> (case walk w data nds (Suc n) of (t, err) \<Rightarrow> (Write (emit data nd) # t, err)))"

definition Execute :: "node list \<Rightarrow> ResponseWriter \<Rightarrow> (string \<rightharpoonup> string) \<Rightarrow> event list \<times> error option" where
  "Execute tmpl w data = walk w data tmpl 0"

subsection \<open>The handlers\<close>

text \<open>\<open>GET /{$}\<close> (main.go, lines 73 to 83).\<close>

definition index_handler :: "ResponseWriter \<Rightarrow> request \<Rightarrow> result" where
  "index_handler w r =
     (let email = (case request_Cookie r ''email'' of None \<Rightarrow> [] | Some cookie \<Rightarrow> Value cookie)
      in case Execute indexTemplate w [''Email'' \<mapsto> email] of
           (t, Some err) \<Rightarrow> \<lparr>trace = t, outcome = Panicked (PanicError err)\<rparr>
         | (t, None) \<Rightarrow> \<lparr>trace = t, outcome = Returned\<rparr>)"

text \<open>\<open>GET /logout\<close> (lines 89 to 95).\<close>

definition logout_handler :: "request \<Rightarrow> result" where
  "logout_handler r =
     \<lparr>trace = [SetCookie \<lparr>Name = ''email'', Value = [], MaxAge = - 1\<rparr>,
               Redirect ''/'' StatusFound],
      outcome = Returned\<rparr>"

text \<open>\<open>GET /saml-redirect\<close> (lines 99 to 124). \<open>panic(err)\<close> when the call returns an
  error; the two dereferences \<open>*getRedirectURLRes.RedirectURL\<close> panic on nil.\<close>

definition saml_redirect_handler :: "SAMLClient \<Rightarrow> request \<Rightarrow> result" where
  "saml_redirect_handler ssoreadyClient r =
     (case Cut (Values_Get (Query r) ''email'') ''@'' of
        (_, domain, _) \<Rightarrow>
          (let req = \<lparr>OrganizationExternalID = Some domain\<rparr>;
               called = [CallGetSAMLRedirectURL req]
           in case GetSAMLRedirectURL ssoreadyClient req of
                (_, Some err) \<Rightarrow> \<lparr>trace = called, outcome = Panicked (PanicError err)\<rparr>
              | (None, None) \<Rightarrow> \<lparr>trace = called, outcome = Panicked NilPointerDereference\<rparr>
              | (Some getRedirectURLRes, None) \<Rightarrow>
                  (case RedirectURL getRedirectURLRes of
                     None \<Rightarrow> \<lparr>trace = called, outcome = Panicked NilPointerDereference\<rparr>
                   | Some url \<Rightarrow>
                       \<lparr>trace = called @ [Redirect url StatusFound], outcome = Returned\<rparr>)))"

text \<open>\<open>GET /ssoready-callback\<close> (lines 128 to 153).\<close>

definition ssoready_callback_handler :: "SAMLClient \<Rightarrow> request \<Rightarrow> result" where
  "ssoready_callback_handler ssoreadyClient r =
     (let samlAccessCode = Values_Get (Query r) ''saml_access_code'';
          req = \<lparr>SAMLAccessCode = Some samlAccessCode\<rparr>;
          called = [CallRedeemSAMLAccessCode req]
      in case RedeemSAMLAccessCode ssoreadyClient req of
           (_, Some err) \<Rightarrow> \<lparr>trace = called, outcome = Panicked (PanicError err)\<rparr>
         | (None, None) \<Rightarrow> \<lparr>trace = called, outcome = Panicked NilPointerDereference\<rparr>
         | (Some redeemRes, None) \<Rightarrow>
             (case Email redeemRes of
                None \<Rightarrow> \<lparr>trace = called, outcome = Panicked NilPointerDereference\<rparr>
              | Some email \<Rightarrow>
                  \<lparr>trace = called @
                     [SetCookie \<lparr>Name = ''email'', Value = email, MaxAge = 0\<rparr>,
                      Redirect ''/'' StatusFound],
                   outcome = Returned\<rparr>))"

subsection \<open>The browser's cookie jar\<close>

text \<open>
  The session is carried by the browser: it is the \<open>email\<close> cookie of its jar. The jar
  is not part of the program; it is modelled by what \<open>http.Cookie\<close> documents for the
  fields the program sets: a cookie with \<open>MaxAge < 0\<close> is deleted, any other is stored
  under its name, with the value \<open>http.SetCookie\<close> wrote for it. \<open>receive\<close> applies the
  cookies of a response in order, and \<open>browser_request\<close> is a later request of that
  browser: it carries the jar's \<open>email\<close> cookie, if there is one, as \<open>net/http\<close> reads
  it from the \<open>Cookie\<close> header.
\<close>

type_synonym jar = "string \<rightharpoonup> string"

fun receive :: "event list \<Rightarrow> jar \<Rightarrow> jar" where
  "receive [] j = j"
| "receive (SetCookie c # t) j =
     receive t (if MaxAge c < 0 then j(Name c := None)
                else j(Name c \<mapsto> sanitizeCookieValue (Value c)))"
| "receive (e # t) j = receive t j"

definition browser_request :: "jar \<Rightarrow> string \<Rightarrow> Values \<Rightarrow> request" where
  "browser_request j path q =
     \<lparr>Method = ''GET'', Path = path, Query = q,
      Cookies = (case j ''email'' of
                   None \<Rightarrow> []
                 | Some raw \<Rightarrow>
                     (case parseCookieValue raw of
                        None \<Rightarrow> []
                      | Some v \<Rightarrow> [\<lparr>Name = ''email'', Value = v, MaxAge = 0\<rparr>])),
      Header = [], Body = []\<rparr>"

subsection \<open>Test doubles\<close>

text \<open>
  Concrete brokers, a writer and requests, for evaluating the handlers.
  \<open>demo_client\<close> knows the two organizations of the demo and one access code;
  \<open>lenient_client\<close> answers every request, also one for the empty organization or the
  empty code; \<open>redeeming_client e\<close> redeems every code to the identity \<open>e\<close>.
  \<open>good_writer\<close> is a connection on which every write succeeds.
\<close>

definition demo_client :: SAMLClient where
  "demo_client =
     \<lparr>GetSAMLRedirectURL = (\<lambda>req.
        if OrganizationExternalID req = Some ''example.com''
           \<or> OrganizationExternalID req = Some ''example.org''
        then (Some \<lparr>RedirectURL = Some ''https://idp.example/login''\<rparr>, None)
        else (None, Some (Error ''organization not found''))),
      RedeemSAMLAccessCode = (\<lambda>req.
        if SAMLAccessCode req = Some ''abc123''
        then (Some \<lparr>Email = Some ''john.doe@example.com''\<rparr>, None)
        else (None, Some (Error ''invalid saml access code'')))\<rparr>"

definition lenient_client :: SAMLClient where
  "lenient_client =
     \<lparr>GetSAMLRedirectURL = (\<lambda>req. (Some \<lparr>RedirectURL = Some ''https://idp.example/login''\<rparr>, None)),
      RedeemSAMLAccessCode = (\<lambda>req. (Some \<lparr>Email = Some ''john.doe@example.com''\<rparr>, None))\<rparr>"


definition good_writer :: ResponseWriter where
  "good_writer n = None"

definition GET :: "string \<Rightarrow> (string \<times> string list) list \<Rightarrow> cookie list \<Rightarrow> request" where
  "GET path q cs =
     \<lparr>Method = ''GET'', Path = path, Query = map_of q, Cookies = cs, Header = [], Body = []\<rparr>"

section \<open>Properties\<close>

subsection \<open>strings.Cut at the first separator\<close>

lemma Index_at_absent:
  "CHR ''@'' \<notin> set s \<Longrightarrow> Index s ''@'' = None"
  by (induction s) auto

lemma Index_at_first:
  "CHR ''@'' \<notin> set l \<Longrightarrow> Index (l @ CHR ''@'' # rest) ''@'' = Some (length l)"
  by (induction l) auto

lemma Cut_at_absent:
  "CHR ''@'' \<notin> set s \<Longrightarrow> Cut s ''@'' = (s, [], False)"
  by (simp add: Cut_def Index_at_absent)

lemma Cut_at_first:
  "CHR ''@'' \<notin> set l \<Longrightarrow> Cut (l @ ''@'' @ rest) ''@'' = (l, rest, True)"
  by (simp add: Cut_def Index_at_first)

lemma Cut_at_first_Cons:
  "CHR ''@'' \<notin> set l \<Longrightarrow> Cut (l @ CHR ''@'' # rest) ''@'' = (l, rest, True)"
  using Cut_at_first [of l rest] by simp

lemma Cut_at_last:
  "CHR ''@'' \<notin> set l \<Longrightarrow> Cut (l @ ''@'') ''@'' = (l, [], True)"
  using Cut_at_first [of l "[]"] by simp

lemma unresolvable_domain:
  assumes "CHR ''@'' \<notin> set e \<or> (\<exists>l. CHR ''@'' \<notin> set l \<and> e = l @ ''@'')"
  shows "fst (snd (Cut e ''@'')) = []"
  using assms by (auto simp: Cut_at_absent Cut_at_last)

subsection \<open>The broker calls of the two login handlers\<close>

lemma saml_redirect_broker_calls:
  "broker_calls (saml_redirect_handler client r) =
     [CallGetSAMLRedirectURL
        \<lparr>OrganizationExternalID = Some (fst (snd (Cut (Values_Get (Query r) ''email'') ''@'')))\<rparr>]"
  by (simp add: saml_redirect_handler_def broker_calls_def Let_def
           split: prod.split option.split)

lemma callback_broker_calls:
  "broker_calls (ssoready_callback_handler client r) =
     [CallRedeemSAMLAccessCode
        \<lparr>SAMLAccessCode = Some (Values_Get (Query r) ''saml_access_code'')\<rparr>]"
  by (simp add: ssoready_callback_handler_def broker_calls_def Let_def
           split: prod.split option.split)

subsection \<open>GET /saml-redirect\<close>

text \<open>
  Claim C1. Whenever the broker's \<open>GetSAMLRedirectURL\<close> call, made for the organization
  cut from the \<open>email\<close> query parameter, succeeds and returns a \<open>RedirectURL\<close>, the
  handler calls \<open>http.Redirect\<close> exactly once, with status 302 and that URL as its
  target, does nothing else on the response writer, and returns. (The handler has no
  notion of a valid organization of its own: the statement holds for every \<open>email\<close>
  the broker answers.)
\<close>

theorem saml_redirect_issues_one_redirect:
  assumes "Cut (Values_Get (Query r) ''email'') ''@'' = (before, domain, found)"
    and "GetSAMLRedirectURL client \<lparr>OrganizationExternalID = Some domain\<rparr>
           = (Some \<lparr>RedirectURL = Some url\<rparr>, None)"
  shows "saml_redirect_handler client r =
           \<lparr>trace = [CallGetSAMLRedirectURL \<lparr>OrganizationExternalID = Some domain\<rparr>,
                     Redirect url 302],
            outcome = Returned\<rparr>
         \<and> response (saml_redirect_handler client r) = [Redirect url 302]"
  using assms
  by (simp add: saml_redirect_handler_def response_def StatusFound_def)

theorem saml_redirect_issues_one_redirect_witness:
  "Cut (Values_Get (Query (GET ''/saml-redirect'' [(''email'', [''john.doe@example.com''])] []))
          ''email'') ''@''
     = (''john.doe'', ''example.com'', True)
   \<and> GetSAMLRedirectURL demo_client \<lparr>OrganizationExternalID = Some ''example.com''\<rparr>
     = (Some \<lparr>RedirectURL = Some ''https://idp.example/login''\<rparr>, None)
   \<and> saml_redirect_handler demo_client
        (GET ''/saml-redirect'' [(''email'', [''john.doe@example.com''])] [])
       = \<lparr>trace = [CallGetSAMLRedirectURL \<lparr>OrganizationExternalID = Some ''example.com''\<rparr>,
                   Redirect ''https://idp.example/login'' 302],
          outcome = Returned\<rparr>
   \<and> response (saml_redirect_handler demo_client
        (GET ''/saml-redirect'' [(''email'', [''john.doe@example.com''])] []))
       = [Redirect ''https://idp.example/login'' 302]"
proof -
  have cut: "Cut (Values_Get (Query (GET ''/saml-redirect''
                 [(''email'', [''john.doe@example.com''])] [])) ''email'') ''@''
     = (''john.doe'', ''example.com'', True)"
    by (simp add: GET_def Values_Get_def Cut_def)
  have broker: "GetSAMLRedirectURL demo_client \<lparr>OrganizationExternalID = Some ''example.com''\<rparr>
     = (Some \<lparr>RedirectURL = Some ''https://idp.example/login''\<rparr>, None)"
    by (simp add: demo_client_def)
  from saml_redirect_issues_one_redirect [OF cut broker] cut broker
  show ?thesis by (simp add: response_def)
qed

text \<open>
  Claim C4 says that an \<open>email\<close> that is empty or has no organization after an \<open>@\<close> fails
  with \<open>InvalidOrganizationInput\<close>, without a redirect and without asking the broker.
  The handler has no such check. On a request without \<open>email\<close> it asks the broker for
  the empty organization, and a broker that answers gets the browser redirected; with
  the demo broker and the email \<open>john.doe\<close>, the failure is the broker's error, raised
  after the broker was asked.
\<close>

theorem saml_redirect_unresolvable_counterexample:
  "Values_Get (Query (GET ''/saml-redirect'' [] [])) ''email'' = []
   \<and> saml_redirect_handler lenient_client (GET ''/saml-redirect'' [] [])
     = \<lparr>trace = [CallGetSAMLRedirectURL \<lparr>OrganizationExternalID = Some []\<rparr>,
                 Redirect ''https://idp.example/login'' 302],
        outcome = Returned\<rparr>
   \<and> saml_redirect_handler demo_client (GET ''/saml-redirect'' [(''email'', [''john.doe''])] [])
     = \<lparr>trace = [CallGetSAMLRedirectURL \<lparr>OrganizationExternalID = Some []\<rparr>],
        outcome = Panicked (PanicError (Error ''organization not found''))\<rparr>"
  by (simp add: saml_redirect_handler_def lenient_client_def demo_client_def GET_def
        Values_Get_def Cut_def StatusFound_def)

text \<open>
  Claim C4, as amended. When the \<open>email\<close> parameter is empty, has no \<open>@\<close>, or has nothing
  after its first \<open>@\<close>, the handler asks the broker's \<open>GetSAMLRedirectURL\<close> for the empty
  organization identifier; when that call returns an error, the handler panics with the
  broker's error and issues no redirect.
\<close>

theorem saml_redirect_unresolvable_is_left_to_broker:
  assumes "Values_Get (Query r) ''email'' = e"
    and "CHR ''@'' \<notin> set e \<or> (\<exists>l. CHR ''@'' \<notin> set l \<and> e = l @ ''@'')"
    and "GetSAMLRedirectURL client \<lparr>OrganizationExternalID = Some []\<rparr> = (res, Some err)"
  shows "saml_redirect_handler client r =
           \<lparr>trace = [CallGetSAMLRedirectURL \<lparr>OrganizationExternalID = Some []\<rparr>],
            outcome = Panicked (PanicError err)\<rparr>
         \<and> response (saml_redirect_handler client r) = []"
proof -
  from assms(2) have "fst (snd (Cut e ''@'')) = []"
    by (rule unresolvable_domain)
  then obtain before found where "Cut e ''@'' = (before, [], found)"
    by (cases "Cut e ''@''") auto
  with assms(1,3) show ?thesis
    by (simp add: saml_redirect_handler_def response_def Let_def split: option.split)
qed

theorem saml_redirect_unresolvable_is_left_to_broker_witness:
  "Values_Get (Query (GET ''/saml-redirect'' [(''email'', [''john.doe@''])] [])) ''email''
     = ''john.doe@''
   \<and> CHR ''@'' \<notin> set ''john.doe'' \<and> ''john.doe@'' = ''john.doe'' @ ''@''
   \<and> GetSAMLRedirectURL demo_client \<lparr>OrganizationExternalID = Some []\<rparr>
       = (None, Some (Error ''organization not found''))
   \<and> saml_redirect_handler demo_client (GET ''/saml-redirect'' [(''email'', [''john.doe@''])] [])
     = \<lparr>trace = [CallGetSAMLRedirectURL \<lparr>OrganizationExternalID = Some []\<rparr>],
        outcome = Panicked (PanicError (Error ''organization not found''))\<rparr>
   \<and> response (saml_redirect_handler demo_client
         (GET ''/saml-redirect'' [(''email'', [''john.doe@''])] [])) = []"
proof -
  have email: "Values_Get (Query (GET ''/saml-redirect'' [(''email'', [''john.doe@''])] [])) ''email''
     = ''john.doe@''"
    by (simp add: GET_def Values_Get_def)
  have ends: "CHR ''@'' \<notin> set ''john.doe'' \<and> ''john.doe@'' = ''john.doe'' @ ''@''"
    by simp
  then have shape: "CHR ''@'' \<notin> set ''john.doe@''
        \<or> (\<exists>l. CHR ''@'' \<notin> set l \<and> ''john.doe@'' = l @ ''@'')"
    by blast
  have failed: "GetSAMLRedirectURL demo_client \<lparr>OrganizationExternalID = Some []\<rparr>
       = (None, Some (Error ''organization not found''))"
    by (simp add: demo_client_def)
  from saml_redirect_unresolvable_is_left_to_broker [OF email shape failed] email ends failed
  show ?thesis by blast
qed

text \<open>
  Claim C8 says that for every email of the form \<open>local + "@" + domain\<close> the organization
  passed to the broker is \<open>domain\<close>. \<open>strings.Cut\<close> cuts at the first \<open>@\<close>: the email
  \<open>a@b@c.com\<close> is \<open>a@b\<close>, \<open>@\<close>, \<open>c.com\<close>, and the organization passed is \<open>b@c.com\<close>.
\<close>

theorem organization_is_after_last_at_counterexample:
  "Values_Get (Query (GET ''/saml-redirect'' [(''email'', [''a@b@c.com''])] [])) ''email''
     = ''a@b'' @ ''@'' @ ''c.com''
   \<and> broker_calls (saml_redirect_handler demo_client
         (GET ''/saml-redirect'' [(''email'', [''a@b@c.com''])] []))
     = [CallGetSAMLRedirectURL \<lparr>OrganizationExternalID = Some ''b@c.com''\<rparr>]
   \<and> broker_calls (saml_redirect_handler demo_client
         (GET ''/saml-redirect'' [(''email'', [''a@b@c.com''])] []))
     \<noteq> [CallGetSAMLRedirectURL \<lparr>OrganizationExternalID = Some ''c.com''\<rparr>]"
  by (simp add: saml_redirect_handler_def broker_calls_def demo_client_def GET_def
        Values_Get_def Cut_def)

text \<open>
  Claim C8, as amended. For every \<open>email\<close> query parameter of the form
  \<open>local + "@" + domain\<close> in which \<open>local\<close> contains no \<open>@\<close>, the one call the handler makes
  on the broker is \<open>GetSAMLRedirectURL\<close> with \<open>OrganizationExternalID = domain\<close>; so
  \<open>john.doe@example.com\<close> resolves to \<open>example.com\<close>.
\<close>

theorem organization_is_domain_of_email:
  assumes "Values_Get (Query r) ''email'' = local @ ''@'' @ domain"
    and "CHR ''@'' \<notin> set local"
  shows "broker_calls (saml_redirect_handler client r) =
           [CallGetSAMLRedirectURL \<lparr>OrganizationExternalID = Some domain\<rparr>]"
  using assms by (simp add: saml_redirect_broker_calls Cut_at_first_Cons)

theorem organization_is_domain_of_email_witness:
  "Values_Get (Query (GET ''/saml-redirect'' [(''email'', [''john.doe@example.com''])] [])) ''email''
     = ''john.doe'' @ ''@'' @ ''example.com''
   \<and> CHR ''@'' \<notin> set ''john.doe''
   \<and> broker_calls (saml_redirect_handler demo_client
         (GET ''/saml-redirect'' [(''email'', [''john.doe@example.com''])] []))
     = [CallGetSAMLRedirectURL \<lparr>OrganizationExternalID = Some ''example.com''\<rparr>]"
proof -
  have email: "Values_Get (Query (GET ''/saml-redirect''
                  [(''email'', [''john.doe@example.com''])] [])) ''email''
     = ''john.doe'' @ ''@'' @ ''example.com''"
    by (simp add: GET_def Values_Get_def)
  have local: "CHR ''@'' \<notin> set ''john.doe''"
    by simp
  from organization_is_domain_of_email [OF email local] email local
  show ?thesis by blast
qed

text \<open>
  Claim C9. The organization identifier sent to the broker is everything after the first
  \<open>@\<close> of the \<open>email\<close> parameter, further \<open>@\<close> included (\<open>a@b@c.com\<close> gives \<open>b@c.com\<close>); an
  \<open>email\<close> without any \<open>@\<close> is not rejected: the broker is asked for the empty
  organization identifier.
\<close>

theorem organization_is_cut_at_first_at:
  "(CHR ''@'' \<notin> set l \<and> Values_Get (Query r) ''email'' = l @ ''@'' @ rest
      \<longrightarrow> broker_calls (saml_redirect_handler client r) =
            [CallGetSAMLRedirectURL \<lparr>OrganizationExternalID = Some rest\<rparr>])
   \<and> (CHR ''@'' \<notin> set (Values_Get (Query r) ''email'')
      \<longrightarrow> broker_calls (saml_redirect_handler client r) =
            [CallGetSAMLRedirectURL \<lparr>OrganizationExternalID = Some []\<rparr>])"
  by (simp add: saml_redirect_broker_calls Cut_at_first_Cons Cut_at_absent)

theorem organization_is_cut_at_first_at_witness:
  "CHR ''@'' \<notin> set ''a''
   \<and> Values_Get (Query (GET ''/saml-redirect'' [(''email'', [''a@b@c.com''])] [])) ''email''
       = ''a'' @ ''@'' @ ''b@c.com''
   \<and> broker_calls (saml_redirect_handler lenient_client
         (GET ''/saml-redirect'' [(''email'', [''a@b@c.com''])] []))
       = [CallGetSAMLRedirectURL \<lparr>OrganizationExternalID = Some ''b@c.com''\<rparr>]
   \<and> CHR ''@'' \<notin> set (Values_Get
         (Query (GET ''/saml-redirect'' [(''email'', [''nobody''])] [])) ''email'')
   \<and> broker_calls (saml_redirect_handler lenient_client
         (GET ''/saml-redirect'' [(''email'', [''nobody''])] []))
       = [CallGetSAMLRedirectURL \<lparr>OrganizationExternalID = Some []\<rparr>]"
proof -
  have l: "CHR ''@'' \<notin> set ''a''"
    by simp
  have email: "Values_Get (Query (GET ''/saml-redirect'' [(''email'', [''a@b@c.com''])] [])) ''email''
       = ''a'' @ ''@'' @ ''b@c.com''"
    by (simp add: GET_def Values_Get_def)
  have none: "CHR ''@'' \<notin> set (Values_Get
         (Query (GET ''/saml-redirect'' [(''email'', [''nobody''])] [])) ''email'')"
    by (simp add: GET_def Values_Get_def)
  from organization_is_cut_at_first_at
         [of "''a''" "GET ''/saml-redirect'' [(''email'', [''a@b@c.com''])] []" "''b@c.com''"
             lenient_client]
       organization_is_cut_at_first_at
         [of "''a''" "GET ''/saml-redirect'' [(''email'', [''nobody''])] []" "''b@c.com''"
             lenient_client]
       l email none
  show ?thesis by blast
qed

subsection \<open>GET /ssoready-callback\<close>






text \<open>
  Claim C3. When the broker's \<open>RedeemSAMLAccessCode\<close> call returns an error, the handler
  panics with that very error (the spec's \<open>CodeRedemptionError\<close>; the program has no
  error type of its own) before it touches the response writer: no cookie is set, no
  redirect is issued, and a browser's cookie jar is left as it was.
\<close>

theorem callback_error_sets_no_session:
  assumes "RedeemSAMLAccessCode client
             \<lparr>SAMLAccessCode = Some (Values_Get (Query r) ''saml_access_code'')\<rparr>
           = (res, Some err)"
  shows "ssoready_callback_handler client r =
           \<lparr>trace = [CallRedeemSAMLAccessCode
                       \<lparr>SAMLAccessCode = Some (Values_Get (Query r) ''saml_access_code'')\<rparr>],
            outcome = Panicked (PanicError err)\<rparr>
         \<and> response (ssoready_callback_handler client r) = []
         \<and> receive (trace (ssoready_callback_handler client r)) j = j"
  using assms
  by (simp add: ssoready_callback_handler_def response_def Let_def split: option.split)

theorem callback_error_sets_no_session_witness:
  "RedeemSAMLAccessCode demo_client
     \<lparr>SAMLAccessCode = Some (Values_Get
        (Query (GET ''/ssoready-callback'' [(''saml_access_code'', [''expired''])] []))
        ''saml_access_code'')\<rparr>
     = (None, Some (Error ''invalid saml access code''))
   \<and> ssoready_callback_handler demo_client
        (GET ''/ssoready-callback'' [(''saml_access_code'', [''expired''])] [])
     = \<lparr>trace = [CallRedeemSAMLAccessCode \<lparr>SAMLAccessCode = Some ''expired''\<rparr>],
        outcome = Panicked (PanicError (Error ''invalid saml access code''))\<rparr>
   \<and> response (ssoready_callback_handler demo_client
        (GET ''/ssoready-callback'' [(''saml_access_code'', [''expired''])] [])) = []
   \<and> receive (trace (ssoready_callback_handler demo_client
        (GET ''/ssoready-callback'' [(''saml_access_code'', [''expired''])] []))) Map.empty ''email''
     = None"
proof -
  have failed: "RedeemSAMLAccessCode demo_client
     \<lparr>SAMLAccessCode = Some (Values_Get
        (Query (GET ''/ssoready-callback'' [(''saml_access_code'', [''expired''])] []))
        ''saml_access_code'')\<rparr>
     = (None, Some (Error ''invalid saml access code''))"
    by (simp add: demo_client_def GET_def Values_Get_def)
  have code: "Values_Get
        (Query (GET ''/ssoready-callback'' [(''saml_access_code'', [''expired''])] []))
        ''saml_access_code'' = ''expired''"
    by (simp add: GET_def Values_Get_def)
  from callback_error_sets_no_session [OF failed, of Map.empty] failed code
  show ?thesis by (simp add: response_def)
qed

text \<open>
  Claim C6. Every invocation of the callback handler calls the broker exactly once: the
  call is \<open>RedeemSAMLAccessCode\<close>, with the value of the request's \<open>saml_access_code\<close>
  query parameter.
\<close>

theorem callback_redeems_exactly_once:
  "broker_calls (ssoready_callback_handler client r) =
     [CallRedeemSAMLAccessCode
        \<lparr>SAMLAccessCode = Some (Values_Get (Query r) ''saml_access_code'')\<rparr>]
   \<and> length (filter is_broker_call (trace (ssoready_callback_handler client r))) = 1"
  using callback_broker_calls [of client r] by (simp add: broker_calls_def)

text \<open>
  Claim C5 says that a request without \<open>saml_access_code\<close> fails with
  \<open>MissingAccessCode\<close>, sets no cookie and is not redirected to \<open>/\<close>. The handler has no
  such check. On a request with no query parameters it redeems the empty code: with a
  broker that answers, the cookie is set and the browser is redirected to \<open>/\<close>; with
  the demo broker, the failure is the broker's error, raised after the broker was asked.
\<close>

theorem callback_missing_code_counterexample:
  "Query (GET ''/ssoready-callback'' [] []) ''saml_access_code'' = None
   \<and> ssoready_callback_handler lenient_client (GET ''/ssoready-callback'' [] [])
     = \<lparr>trace = [CallRedeemSAMLAccessCode \<lparr>SAMLAccessCode = Some []\<rparr>,
                 SetCookie \<lparr>Name = ''email'', Value = ''john.doe@example.com'', MaxAge = 0\<rparr>,
                 Redirect ''/'' 302],
        outcome = Returned\<rparr>
   \<and> ssoready_callback_handler demo_client (GET ''/ssoready-callback'' [] [])
     = \<lparr>trace = [CallRedeemSAMLAccessCode \<lparr>SAMLAccessCode = Some []\<rparr>],
        outcome = Panicked (PanicError (Error ''invalid saml access code''))\<rparr>"
  by (simp add: ssoready_callback_handler_def lenient_client_def demo_client_def GET_def
        Values_Get_def StatusFound_def)

text \<open>
  Claim C5, as amended. When \<open>saml_access_code\<close> is absent or empty, the handler asks the
  broker to redeem the empty code; when that call returns an error, the handler panics
  with the broker's error, sets no cookie and issues no redirect.
\<close>

theorem callback_missing_code_is_left_to_broker:
  assumes "Query r ''saml_access_code'' = None \<or> Values_Get (Query r) ''saml_access_code'' = []"
    and "RedeemSAMLAccessCode client \<lparr>SAMLAccessCode = Some []\<rparr> = (res, Some err)"
  shows "ssoready_callback_handler client r =
           \<lparr>trace = [CallRedeemSAMLAccessCode \<lparr>SAMLAccessCode = Some []\<rparr>],
            outcome = Panicked (PanicError err)\<rparr>
         \<and> response (ssoready_callback_handler client r) = []
         \<and> receive (trace (ssoready_callback_handler client r)) j = j"
proof -
  from assms(1) have "Values_Get (Query r) ''saml_access_code'' = []"
    by (auto simp: Values_Get_def)
  with assms(2) show ?thesis
    by (simp add: ssoready_callback_handler_def response_def Let_def split: option.split)
qed

theorem callback_missing_code_is_left_to_broker_witness:
  "(Query (GET ''/ssoready-callback'' [] []) ''saml_access_code'' = None
     \<or> Values_Get (Query (GET ''/ssoready-callback'' [] [])) ''saml_access_code'' = [])
   \<and> RedeemSAMLAccessCode demo_client \<lparr>SAMLAccessCode = Some []\<rparr>
       = (None, Some (Error ''invalid saml access code''))
   \<and> ssoready_callback_handler demo_client (GET ''/ssoready-callback'' [] [])
     = \<lparr>trace = [CallRedeemSAMLAccessCode \<lparr>SAMLAccessCode = Some []\<rparr>],
        outcome = Panicked (PanicError (Error ''invalid saml access code''))\<rparr>
   \<and> response (ssoready_callback_handler demo_client (GET ''/ssoready-callback'' [] [])) = []"
proof -
  have absent: "Query (GET ''/ssoready-callback'' [] []) ''saml_access_code'' = None
     \<or> Values_Get (Query (GET ''/ssoready-callback'' [] [])) ''saml_access_code'' = []"
    by (simp add: GET_def)
  have failed: "RedeemSAMLAccessCode demo_client \<lparr>SAMLAccessCode = Some []\<rparr>
       = (None, Some (Error ''invalid saml access code''))"
    by (simp add: demo_client_def)
  from callback_missing_code_is_left_to_broker [OF absent failed] absent failed
  show ?thesis by (simp add: response_def)
qed

subsection \<open>GET / and GET /logout\<close>

text \<open>The page written on a connection that takes every write: the two static texts
  around the escaped value of \<open>or .Email "logged-out user"\<close>.\<close>

lemma htmlEscaper_logged_out:
  "htmlEscaper ''logged-out user'' = ''logged-out user''"
  by (simp add: htmlEscaper_def htmlReplacementTable_def)

lemma Execute_index_good_writer:
  "Execute indexTemplate good_writer [''Email'' \<mapsto> email] =
     ([Write (escapeText index_text_before),
       Write (htmlEscaper (if email = [] then ''logged-out user'' else email)),
       Write (escapeText index_text_after)], None)"
  by (simp add: Execute_def indexTemplate_def good_writer_def truth_def)

lemma index_handler_good_writer:
  "index_handler good_writer r =
     \<lparr>trace =
        [Write (escapeText index_text_before),
         Write (htmlEscaper
           (case request_Cookie r ''email'' of
              None \<Rightarrow> ''logged-out user''
            | Some c \<Rightarrow> if Value c = [] then ''logged-out user'' else Value c)),
         Write (escapeText index_text_after)],
      outcome = Returned\<rparr>"
  by (simp add: index_handler_def Execute_index_good_writer split: option.split)

lemma receive_logout:
  "receive (trace (logout_handler r)) j = j(''email'' := None)"
  by (simp add: logout_handler_def)

text \<open>
  Claim C7. For every request, whatever cookies it carries, the logout handler sets an
  \<open>email\<close> cookie with \<open>MaxAge = -1\<close>, redirects to \<open>/\<close> with status 302 and returns
  (it cannot fail). In a browser that applies those responses, the jar has no \<open>email\<close>
  cookie after one logout, a second logout leaves the jar as the first left it, and the
  next \<open>GET /\<close> of that browser carries no \<open>email\<close> cookie and is answered with the
  logged-out page.
\<close>

theorem logout_idempotent:
  "logout_handler r =
     \<lparr>trace = [SetCookie \<lparr>Name = ''email'', Value = [], MaxAge = - 1\<rparr>, Redirect ''/'' 302],
      outcome = Returned\<rparr>
   \<and> receive (trace (logout_handler r)) j ''email'' = None
   \<and> receive (trace (logout_handler r')) (receive (trace (logout_handler r)) j)
       = receive (trace (logout_handler r)) j
   \<and> request_Cookie (browser_request (receive (trace (logout_handler r)) j) path q) ''email''
       = None
   \<and> index_handler good_writer
        (browser_request (receive (trace (logout_handler r')) (receive (trace (logout_handler r)) j))
           ''/'' q)
       = \<lparr>trace = [Write (escapeText index_text_before), Write ''logged-out user'',
                   Write (escapeText index_text_after)],
          outcome = Returned\<rparr>"
proof -
  have handler: "logout_handler r =
     \<lparr>trace = [SetCookie \<lparr>Name = ''email'', Value = [], MaxAge = - 1\<rparr>, Redirect ''/'' 302],
      outcome = Returned\<rparr>"
    by (simp add: logout_handler_def StatusFound_def)
  have no_cookie: "request_Cookie (browser_request (j(''email'' := None)) p q) ''email'' = None"
    for p
    by (simp add: request_Cookie_def browser_request_def)
  have page: "index_handler good_writer (browser_request (j(''email'' := None)) ''/'' q)
       = \<lparr>trace = [Write (escapeText index_text_before), Write ''logged-out user'',
                   Write (escapeText index_text_after)],
          outcome = Returned\<rparr>"
    by (simp add: index_handler_good_writer no_cookie htmlEscaper_logged_out)
  from handler no_cookie page show ?thesis
    by (simp add: receive_logout)
qed

text \<open>
  Claim C10 says that a request carrying an \<open>email\<close> cookie gets a page rendering the
  cookie's value as the verified identity. A request whose \<open>email\<close> cookie has the empty
  value gets the page of a request without the cookie: the template's \<open>or\<close> greets the
  "logged-out user".
\<close>

theorem index_empty_cookie_counterexample:
  "request_Cookie (GET ''/'' [] [\<lparr>Name = ''email'', Value = [], MaxAge = 0\<rparr>]) ''email''
     = Some \<lparr>Name = ''email'', Value = [], MaxAge = 0\<rparr>
   \<and> index_handler good_writer (GET ''/'' [] [\<lparr>Name = ''email'', Value = [], MaxAge = 0\<rparr>])
     = \<lparr>trace = [Write (escapeText index_text_before), Write ''logged-out user'',
                 Write (escapeText index_text_after)],
        outcome = Returned\<rparr>
   \<and> index_handler good_writer (GET ''/'' [] [\<lparr>Name = ''email'', Value = [], MaxAge = 0\<rparr>])
     = index_handler good_writer (GET ''/'' [] [])"
  by (simp add: index_handler_good_writer request_Cookie_def GET_def htmlEscaper_logged_out)

text \<open>
  Claim C10, as amended. The result of \<open>GET /\<close> is a function of the \<open>email\<close> cookie
  alone: on the same connection, two requests with the same \<open>email\<close> cookie value get
  the same result, whatever else they carry. On a connection that takes every write,
  a non-empty value is rendered HTML-escaped between the two static texts of the
  template, and a request with no \<open>email\<close> cookie, or with an empty one, gets the greeting
  "logged-out user" there.
\<close>

theorem index_page_depends_on_email_cookie_only:
  "(map_option Value (request_Cookie r1 ''email'') = map_option Value (request_Cookie r2 ''email'')
      \<longrightarrow> index_handler w r1 = index_handler w r2)
   \<and> (request_Cookie r ''email'' = Some c \<and> Value c \<noteq> []
      \<longrightarrow> index_handler good_writer r =
            \<lparr>trace = [Write (escapeText index_text_before), Write (htmlEscaper (Value c)),
                      Write (escapeText index_text_after)],
             outcome = Returned\<rparr>)
   \<and> (request_Cookie r ''email'' = None \<or> map_option Value (request_Cookie r ''email'') = Some []
      \<longrightarrow> index_handler good_writer r =
            \<lparr>trace = [Write (escapeText index_text_before), Write ''logged-out user'',
                      Write (escapeText index_text_after)],
             outcome = Returned\<rparr>)"
proof (intro conjI impI)
  assume "map_option Value (request_Cookie r1 ''email'')
            = map_option Value (request_Cookie r2 ''email'')"
  then show "index_handler w r1 = index_handler w r2"
    by (cases "request_Cookie r1 ''email''"; cases "request_Cookie r2 ''email''")
       (simp_all add: index_handler_def)
next
  assume "request_Cookie r ''email'' = Some c \<and> Value c \<noteq> []"
  then show "index_handler good_writer r =
            \<lparr>trace = [Write (escapeText index_text_before), Write (htmlEscaper (Value c)),
                      Write (escapeText index_text_after)],
             outcome = Returned\<rparr>"
    by (simp add: index_handler_good_writer)
next
  assume "request_Cookie r ''email'' = None
            \<or> map_option Value (request_Cookie r ''email'') = Some []"
  then show "index_handler good_writer r =
            \<lparr>trace = [Write (escapeText index_text_before), Write ''logged-out user'',
                      Write (escapeText index_text_after)],
             outcome = Returned\<rparr>"
    by (auto simp: index_handler_good_writer htmlEscaper_logged_out)
qed

theorem index_page_depends_on_email_cookie_only_witness:
  "map_option Value (request_Cookie
       (GET ''/'' [] [\<lparr>Name = ''email'', Value = ''a+b@example.com'', MaxAge = 0\<rparr>]) ''email'')
     = map_option Value (request_Cookie
         (GET ''/'' [(''email'', [''eve@example.org''])]
            [\<lparr>Name = ''theme'', Value = ''dark'', MaxAge = 0\<rparr>,
             \<lparr>Name = ''email'', Value = ''a+b@example.com'', MaxAge = 0\<rparr>]) ''email'')
   \<and> index_handler good_writer
        (GET ''/'' [] [\<lparr>Name = ''email'', Value = ''a+b@example.com'', MaxAge = 0\<rparr>])
     = index_handler good_writer
         (GET ''/'' [(''email'', [''eve@example.org''])]
            [\<lparr>Name = ''theme'', Value = ''dark'', MaxAge = 0\<rparr>,
             \<lparr>Name = ''email'', Value = ''a+b@example.com'', MaxAge = 0\<rparr>])
   \<and> index_handler good_writer
        (GET ''/'' [] [\<lparr>Name = ''email'', Value = ''a+b@example.com'', MaxAge = 0\<rparr>])
     = \<lparr>trace = [Write (escapeText index_text_before), Write ''a&#43;b@example.com'',
                 Write (escapeText index_text_after)],
        outcome = Returned\<rparr>
   \<and> request_Cookie (GET ''/'' [(''email'', [''eve@example.org''])] []) ''email'' = None
   \<and> index_handler good_writer (GET ''/'' [(''email'', [''eve@example.org''])] [])
     = \<lparr>trace = [Write (escapeText index_text_before), Write ''logged-out user'',
                 Write (escapeText index_text_after)],
        outcome = Returned\<rparr>"
proof -
  let ?c = "\<lparr>Name = ''email'', Value = ''a+b@example.com'', MaxAge = 0\<rparr>"
  let ?r1 = "GET ''/'' [] [?c]"
  let ?r2 = "GET ''/'' [(''email'', [''eve@example.org''])]
            [\<lparr>Name = ''theme'', Value = ''dark'', MaxAge = 0\<rparr>, ?c]"
  let ?r3 = "GET ''/'' [(''email'', [''eve@example.org''])] []"
  have c1: "request_Cookie ?r1 ''email'' = Some ?c"
    by (simp add: request_Cookie_def GET_def)
  have c2: "request_Cookie ?r2 ''email'' = Some ?c"
    by (simp add: request_Cookie_def GET_def)
  have c3: "request_Cookie ?r3 ''email'' = None"
    by (simp add: request_Cookie_def GET_def)
  have esc: "htmlEscaper ''a+b@example.com'' = ''a&#43;b@example.com''"
    by (simp add: htmlEscaper_def htmlReplacementTable_def)
  from index_page_depends_on_email_cookie_only [of ?r1 ?r2 good_writer ?r1 ?c]
       index_page_depends_on_email_cookie_only [of ?r1 ?r2 good_writer ?r3 ?c]
       c1 c2 c3 esc
  show ?thesis by simp
qed

end
